theory Spec2Isabelle
  imports Main "HOL-Library.Sublist"
begin

section \<open>The class \<open>cmModClass\<close> of \<open>cmMod.cpp\<close>\<close>

text \<open>
  The translation unit defines one class with a single data member and three member
  functions:
  \<^verbatim>\<open>
  cmModClass::cmModClass(string foo) { str = foo + " World"; }
  string cmModClass::getStr() const   { return str; }
  string cmModClass::getOther() const { return getStr() + "  --  " + getStrCpy(); }
  \<close>
  A \<open>std::string\<close> is a finite sequence of bytes, which is what \<^typ>\<open>string\<close> is
  here; lengths are unbounded, so running out of memory is not part of the model.
  The \<open>#ifndef FOO\<close> / \<open>#error\<close> lines act in the preprocessor, before any of this code
  exists, and have no counterpart below.
\<close>

subsection \<open>Data\<close>

text \<open>The object: its only member is \<open>str\<close>.\<close>

record cmModClass =
  str :: string

subsection \<open>Member functions\<close>

text \<open>
  The constructor takes \<open>foo\<close> by value and assigns \<open>foo + " World"\<close> to \<open>str\<close>. Its body
  has no branch and no \<open>throw\<close>, so its result is an object and nothing else.
\<close>

definition cmModClass :: "string \<Rightarrow> cmModClass" where
  "cmModClass foo = \<lparr>str = foo @ '' World''\<rparr>"

text \<open>\<open>getStr\<close> is \<open>const\<close>: it reads the object and returns a copy of \<open>str\<close>.\<close>

definition getStr :: "cmModClass \<Rightarrow> string" where
  "getStr self = str self"

text \<open>
  \<open>getOther\<close> is \<open>const\<close> too. It calls \<open>getStrCpy\<close>, which is declared in \<open>cmModLib.hpp\<close>
  and defined in another library; only its call is in this file, so it is a parameter
  here: a function of no argument that returns a string. The operator \<open>+\<close> associates to
  the left, and the model keeps that bracketing.
\<close>

definition getOther :: "(unit \<Rightarrow> string) \<Rightarrow> cmModClass \<Rightarrow> string" where
  "getOther getStrCpy self = (getStr self @ ''  --  '') @ getStrCpy ()"

subsection \<open>Sequences of calls on one object\<close>

text \<open>
  A client can call the two \<open>const\<close> member functions on an object in any order. A call
  is run in state-passing style: it returns the string the member function returns,
  together with the object as the call leaves it. Neither body assigns to a member, so
  the object comes back as it went in.
\<close>

datatype call = GetStr | GetOther

primrec invoke :: "(unit \<Rightarrow> string) \<Rightarrow> call \<Rightarrow> cmModClass \<Rightarrow> string \<times> cmModClass" where
  "invoke getStrCpy GetStr self = (getStr self, self)"
| "invoke getStrCpy GetOther self = (getOther getStrCpy self, self)"

text \<open>
  \<open>run\<close> performs the calls from left to right, each on the object the previous call
  left, and collects the returned strings in order.
\<close>

primrec run :: "(unit \<Rightarrow> string) \<Rightarrow> call list \<Rightarrow> cmModClass \<Rightarrow> string list \<times> cmModClass" where
  "run getStrCpy [] self = ([], self)"
| "run getStrCpy (c # cs) self =
     (case invoke getStrCpy c self of (r, self') \<Rightarrow>
        (case run getStrCpy cs self' of (rs, self'') \<Rightarrow> (r # rs, self'')))"

section \<open>Properties\<close>

subsection \<open>Auxiliary facts about calls\<close>

lemma invoke_object: "snd (invoke getStrCpy c self) = self"
  by (cases c) simp_all

lemma invoke_result:
  "fst (invoke getStrCpy c self) =
     (case c of GetStr \<Rightarrow> getStr self | GetOther \<Rightarrow> getOther getStrCpy self)"
  by (cases c) simp_all

lemma run_object: "snd (run getStrCpy cs self) = self"
proof (induction cs arbitrary: self)
  case Nil
  show ?case by simp
next
  case (Cons c cs)
  obtain r self' where step: "invoke getStrCpy c self = (r, self')"
    by (cases "invoke getStrCpy c self")
  have same: "self' = self"
    using invoke_object [of getStrCpy c self] step by simp
  obtain rs self'' where rest: "run getStrCpy cs self' = (rs, self'')"
    by (cases "run getStrCpy cs self'")
  have "self'' = self'"
    using Cons.IH [of self'] rest by simp
  with step rest same show ?case by simp
qed

lemma run_results:
  "fst (run getStrCpy cs self) = map (\<lambda>c. fst (invoke getStrCpy c self)) cs"
proof (induction cs)
  case Nil
  show ?case by simp
next
  case (Cons c cs)
  obtain r self' where step: "invoke getStrCpy c self = (r, self')"
    by (cases "invoke getStrCpy c self")
  have same: "self' = self"
    using invoke_object [of getStrCpy c self] step by simp
  obtain rs self'' where rest: "run getStrCpy cs self = (rs, self'')"
    by (cases "run getStrCpy cs self")
  from Cons.IH rest have "rs = map (\<lambda>c. fst (invoke getStrCpy c self)) cs"
    by simp
  with step rest same show ?case by simp
qed

subsection \<open>Construction and \<open>getStr\<close>\<close>

text \<open>
  C1. For every string \<open>s\<close>, constructing an object from \<open>s\<close> and calling \<open>getStr\<close> returns
  \<open>s\<close> followed by the suffix \<open>" World"\<close>. In particular the empty string gives
  \<open>" World"\<close> and \<open>"Hello"\<close> gives \<open>"Hello World"\<close>.
\<close>

theorem getStr_cmModClass:
  "getStr (cmModClass s) = s @ '' World''
   \<and> getStr (cmModClass '''') = '' World''
   \<and> getStr (cmModClass ''Hello'') = ''Hello World''"
  by (simp add: getStr_def cmModClass_def)

text \<open>
  C9. Construction is injective: two inputs give the same \<open>getStr\<close> result exactly when
  they are the same string, since appending a fixed suffix loses nothing of the input.
\<close>

theorem getStr_cmModClass_inject:
  "(getStr (cmModClass s) = getStr (cmModClass t)) = (s = t)"
  by (simp add: getStr_def cmModClass_def)

text \<open>
  C8. \<open>getStr\<close> is a read-only accessor: it returns the stored \<open>str\<close>, a call leaves the
  object as it found it, and after any sequence of earlier calls on the object it still
  returns the same string.
\<close>

theorem getStr_read_only:
  "getStr self = str self
   \<and> invoke getStrCpy GetStr self = (str self, self)
   \<and> fst (invoke getStrCpy GetStr (snd (run getStrCpy' cs self))) = str self"
  by (simp add: getStr_def run_object)

subsection \<open>\<open>getOther\<close>\<close>

text \<open>
  C2. For every object and every string \<open>r\<close> that the external \<open>getStrCpy\<close> returns,
  \<open>getOther\<close> returns exactly \<open>getStr()\<close>, then \<open>"  --  "\<close>, then \<open>r\<close>. The first conjunct
  says so for an arbitrary provider, the second for the provider that returns \<open>r\<close>.
\<close>

theorem getOther_value:
  "getOther getStrCpy self = getStr self @ ''  --  '' @ getStrCpy ()
   \<and> getOther (\<lambda>_. r) self = getStr self @ ''  --  '' @ r"
  by (simp add: getOther_def)

text \<open>
  C3. Whatever the external provider returns, the string \<open>getOther\<close> returns starts with
  \<open>getStr()\<close> followed by \<open>"  --  "\<close>, and what comes after that prefix is the provider's
  string.
\<close>

theorem getOther_prefix:
  "prefix (getStr self @ ''  --  '') (getOther getStrCpy self)
   \<and> drop (length (getStr self @ ''  --  '')) (getOther getStrCpy self) = getStrCpy ()"
proof
  show "prefix (getStr self @ ''  --  '') (getOther getStrCpy self)"
    unfolding getOther_def by (rule prefixI) (rule refl)
next
  show "drop (length (getStr self @ ''  --  '')) (getOther getStrCpy self) = getStrCpy ()"
    unfolding getOther_def by simp
qed

subsection \<open>The object never changes\<close>

text \<open>
  C4. An object constructed from \<open>s\<close> stores \<open>s\<close> followed by \<open>" World"\<close>, and no call of
  \<open>getStr\<close> or \<open>getOther\<close> changes it: a single call returns the object it was given, and
  after any sequence of calls the object is the one the constructor built.
\<close>

theorem object_invariant:
  "str (cmModClass s) = s @ '' World''
   \<and> snd (invoke getStrCpy c self) = self
   \<and> snd (run getStrCpy cs (cmModClass s)) = cmModClass s
   \<and> str (snd (run getStrCpy cs (cmModClass s))) = s @ '' World''"
  by (simp add: invoke_object run_object cmModClass_def)

text \<open>
  C5. The two read operations are idempotent: two \<open>getStr\<close> calls in a row on an object
  return the same string both times, two \<open>getOther\<close> calls in a row (with the same
  external provider) return the same string both times, and the object is unchanged
  after either pair. More generally, in any sequence of calls every call returns what it
  would return as the first call on the object.
\<close>

theorem calls_idempotent:
  "run getStrCpy [GetStr, GetStr] self = ([getStr self, getStr self], self)
   \<and> run getStrCpy [GetOther, GetOther] self =
       ([getOther getStrCpy self, getOther getStrCpy self], self)
   \<and> run getStrCpy cs self =
       (map (\<lambda>c. case c of GetStr \<Rightarrow> getStr self | GetOther \<Rightarrow> getOther getStrCpy self) cs,
        self)"
proof -
  have pair: "run getStrCpy cs self = (fst (run getStrCpy cs self), snd (run getStrCpy cs self))"
    by simp
  have "run getStrCpy cs self =
      (map (\<lambda>c. case c of GetStr \<Rightarrow> getStr self | GetOther \<Rightarrow> getOther getStrCpy self) cs,
       self)"
    by (subst pair) (simp only: run_results run_object invoke_result)
  then show ?thesis by simp
qed

subsection \<open>What \<open>getOther\<close> depends on\<close>

text \<open>
  C10. The result of \<open>getOther\<close> is determined by the constructor's input and the string
  the external provider returns, and by nothing else: two objects constructed from equal
  inputs, with providers that return the same string, give equal results, whatever calls
  were made on either object before (also with other providers); and the result is the
  input, \<open>" World"\<close>, \<open>"  --  "\<close> and the provider's string, in this order.
\<close>

theorem getOther_determined:
  assumes "s = t" and "p () = q ()"
  shows "getOther p (snd (run p' cs (cmModClass s))) =
           getOther q (snd (run q' ds (cmModClass t)))
         \<and> getOther p (snd (run p' cs (cmModClass s))) = s @ '' World'' @ ''  --  '' @ p ()"
  using assms by (simp add: run_object getOther_def getStr_def cmModClass_def)

theorem getOther_determined_witness:
  "''Hello'' = ''Hello''
   \<and> (\<lambda>_. ''cpy'') () = (\<lambda>_. ''c'' @ ''py'') ()
   \<and> getOther (\<lambda>_. ''cpy'') (snd (run (\<lambda>_. ''a'') [GetStr] (cmModClass ''Hello''))) =
       getOther (\<lambda>_. ''c'' @ ''py'')
         (snd (run (\<lambda>_. ''b'') [GetOther, GetStr] (cmModClass ''Hello'')))
   \<and> getOther (\<lambda>_. ''cpy'') (snd (run (\<lambda>_. ''a'') [GetStr] (cmModClass ''Hello''))) =
       ''Hello World  --  cpy''"
proof -
  have eq_in: "''Hello'' = ''Hello''"
    by (rule refl)
  have eq_out: "(\<lambda>_. ''cpy'') () = (\<lambda>_. ''c'' @ ''py'') ()"
    by simp
  show ?thesis
    using getOther_determined [OF eq_in eq_out, of "\<lambda>_. ''a''" "[GetStr]" "\<lambda>_. ''b''" "[GetOther, GetStr]"]
    by simp
qed

end
